theory Spec2Isabelle
  imports Complex_Main
begin

section \<open>Python numbers and exceptions\<close>

text \<open>
  A Python float is a finite value, an infinity or NaN. Finite values are real numbers
  here: rounding inside the range of a double is not modelled, leaving the range is.
  Python integers are \<open>int\<close>.
\<close>

datatype pyfloat = Fin real | PosInf | NegInf | NaN

text \<open>
  The least magnitude that no longer rounds to a finite double. A float operation on
  finite operands whose exact result reaches it returns an infinity, and \<^verbatim>\<open>float(n)\<close>
  raises \<^verbatim>\<open>OverflowError\<close> for an integer \<open>n\<close> that reaches it.
\<close>

definition float_overflow :: real where
  "float_overflow = 2 ^ 1024 - 2 ^ 970"

definition fl :: "real \<Rightarrow> pyfloat" where
  "fl x = (if float_overflow \<le> x then PosInf
           else if x \<le> - float_overflow then NegInf
           else Fin x)"

text \<open>Float negation, addition, subtraction and multiplication (the sign of zero apart).\<close>

fun fneg :: "pyfloat \<Rightarrow> pyfloat" where
  "fneg (Fin x) = Fin (- x)"
| "fneg PosInf = NegInf"
| "fneg NegInf = PosInf"
| "fneg NaN = NaN"

fun fadd :: "pyfloat \<Rightarrow> pyfloat \<Rightarrow> pyfloat" where
  "fadd NaN y = NaN"
| "fadd x NaN = NaN"
| "fadd PosInf NegInf = NaN"
| "fadd NegInf PosInf = NaN"
| "fadd PosInf y = PosInf"
| "fadd NegInf y = NegInf"
| "fadd x PosInf = PosInf"
| "fadd x NegInf = NegInf"
| "fadd (Fin x) (Fin y) = fl (x + y)"

definition fsub :: "pyfloat \<Rightarrow> pyfloat \<Rightarrow> pyfloat" where
  "fsub x y = fadd x (fneg y)"

fun fmul :: "pyfloat \<Rightarrow> pyfloat \<Rightarrow> pyfloat" where
  "fmul NaN y = NaN"
| "fmul x NaN = NaN"
| "fmul (Fin x) (Fin y) = fl (x * y)"
| "fmul (Fin x) PosInf = (if x = 0 then NaN else if 0 < x then PosInf else NegInf)"
| "fmul (Fin x) NegInf = (if x = 0 then NaN else if 0 < x then NegInf else PosInf)"
| "fmul PosInf (Fin y) = (if y = 0 then NaN else if 0 < y then PosInf else NegInf)"
| "fmul NegInf (Fin y) = (if y = 0 then NaN else if 0 < y then NegInf else PosInf)"
| "fmul PosInf PosInf = PosInf"
| "fmul PosInf NegInf = NegInf"
| "fmul NegInf PosInf = NegInf"
| "fmul NegInf NegInf = PosInf"

text \<open>
  The comparisons \<^verbatim>\<open><\<close> and \<^verbatim>\<open><=\<close> of floats: every comparison with NaN is false.
  \<^verbatim>\<open>a > b\<close> is \<^verbatim>\<open>b < a\<close>.
\<close>

fun flt :: "pyfloat \<Rightarrow> pyfloat \<Rightarrow> bool" where
  "flt NaN y = False"
| "flt x NaN = False"
| "flt x NegInf = False"
| "flt NegInf y = True"
| "flt PosInf y = False"
| "flt (Fin x) PosInf = True"
| "flt (Fin x) (Fin y) = (x < y)"

fun fle :: "pyfloat \<Rightarrow> pyfloat \<Rightarrow> bool" where
  "fle NaN y = False"
| "fle x NaN = False"
| "fle NegInf y = True"
| "fle x PosInf = True"
| "fle x NegInf = False"
| "fle PosInf y = False"
| "fle (Fin x) (Fin y) = (x \<le> y)"

text \<open>The exceptions that the modelled code paths can meet.\<close>

datatype exn =
    StatisticsError
  | UnicodeDecodeError
  | JSONDecodeError
  | AttributeError
  | TypeError
  | ValueError
  | OverflowError
  | OSError

text \<open>Sequencing of computations that may raise: the first exception wins.\<close>

definition and_then :: "exn + 'a \<Rightarrow> ('a \<Rightarrow> exn + 'b) \<Rightarrow> exn + 'b" where
  "and_then r f = (case r of Inl x \<Rightarrow> Inl x | Inr v \<Rightarrow> f v)"

text \<open>
  \<^verbatim>\<open>float(n)\<close> for an integer, as float arithmetic applies it to an integer operand.
\<close>

definition int_to_float :: "int \<Rightarrow> exn + pyfloat" where
  "int_to_float n =
     (if float_overflow \<le> \<bar>real_of_int n\<bar> then Inl OverflowError
      else Inr (Fin (real_of_int n)))"

section \<open>The server's statistics\<close>

text \<open>
  The dictionary \<^verbatim>\<open>self.stats\<close> of \<^verbatim>\<open>TCPServer\<close> has a fixed set of keys, so it is a
  record; \<^verbatim>\<open>TCPServer.__init__\<close> gives the initial values. The latencies are results of
  float arithmetic, so floats; the initial integers 0 of \<^verbatim>\<open>total_latency\<close> and
  \<^verbatim>\<open>max_latency\<close> add and compare as the float 0.
\<close>

record stats_dict =
  total_requests :: int
  total_latency :: pyfloat
  min_latency :: pyfloat
  max_latency :: pyfloat
  latencies :: "pyfloat list"

definition init_stats :: stats_dict where
  "init_stats =
     \<lparr>total_requests = 0, total_latency = Fin 0, min_latency = PosInf,
      max_latency = Fin 0, latencies = []\<rparr>"

text \<open>\<^verbatim>\<open>TCPServer.update_stats\<close>, statement by statement.\<close>

definition update_stats :: "stats_dict \<Rightarrow> pyfloat \<Rightarrow> stats_dict" where
  "update_stats s latency =
     (let s1 = s\<lparr>total_requests := total_requests s + 1\<rparr>;
          s2 = s1\<lparr>total_latency := fadd (total_latency s1) latency\<rparr>;
          s3 = s2\<lparr>latencies := latencies s2 @ [latency]\<rparr>;
          s4 = (if flt latency (min_latency s3)
                then s3\<lparr>min_latency := latency\<rparr> else s3);
          s5 = (if flt (max_latency s4) latency
                then s4\<lparr>max_latency := latency\<rparr> else s4)
      in s5)"

subsection \<open>The library functions that compute the statistics\<close>

text \<open>
  \<^verbatim>\<open>statistics.mean\<close>, \<^verbatim>\<open>statistics.median\<close>, \<^verbatim>\<open>statistics.stdev\<close> and the built-in
  \<^verbatim>\<open>min\<close> and \<^verbatim>\<open>max\<close> belong to Python, not to the program. The model fixes what they do
  on no value and on a single value: \<^verbatim>\<open>mean\<close> and \<^verbatim>\<open>median\<close> raise \<^verbatim>\<open>StatisticsError\<close> on
  empty data and \<^verbatim>\<open>stdev\<close> on fewer than two values, \<^verbatim>\<open>min\<close> and \<^verbatim>\<open>max\<close> raise
  \<^verbatim>\<open>ValueError\<close> on an empty list, and a single value is its own minimum, maximum and
  median, and its own mean if it is a number. What a function returns on two or more
  values is an input of the model, like a clock reading.
\<close>

record 'a library =
  min_returns :: "exn + 'a"
  max_returns :: "exn + 'a"
  mean_returns :: "exn + 'a"
  median_returns :: "exn + 'a"
  stdev_returns :: "exn + 'a"

fun py_min :: "'a library \<Rightarrow> 'a list \<Rightarrow> exn + 'a" where
  "py_min lib [] = Inl ValueError"
| "py_min lib [x] = Inr x"
| "py_min lib xs = min_returns lib"

fun py_max :: "'a library \<Rightarrow> 'a list \<Rightarrow> exn + 'a" where
  "py_max lib [] = Inl ValueError"
| "py_max lib [x] = Inr x"
| "py_max lib xs = max_returns lib"

text \<open>\<^verbatim>\<open>statistics.mean\<close> of floats.\<close>

fun statistics_mean :: "pyfloat library \<Rightarrow> pyfloat list \<Rightarrow> exn + pyfloat" where
  "statistics_mean lib [] = Inl StatisticsError"
| "statistics_mean lib [x] = Inr x"
| "statistics_mean lib xs = mean_returns lib"

fun statistics_median :: "'a library \<Rightarrow> 'a list \<Rightarrow> exn + 'a" where
  "statistics_median lib [] = Inl StatisticsError"
| "statistics_median lib [x] = Inr x"
| "statistics_median lib xs = median_returns lib"

definition statistics_stdev :: "'a library \<Rightarrow> 'a list \<Rightarrow> exn + 'a" where
  "statistics_stdev lib xs =
     (if length xs < 2 then Inl StatisticsError else stdev_returns lib)"

subsection \<open>\<^verbatim>\<open>TCPServer.get_stats\<close>\<close>

text \<open>The copy of the dictionary with the three derived keys added.\<close>

record full_stats = stats_dict +
  avg_latency :: pyfloat
  median_latency :: pyfloat
  std_latency :: pyfloat

definition with_derived ::
  "stats_dict \<Rightarrow> pyfloat \<Rightarrow> pyfloat \<Rightarrow> pyfloat \<Rightarrow> full_stats" where
  "with_derived s a m d =
     \<lparr>total_requests = total_requests s, total_latency = total_latency s,
      min_latency = min_latency s, max_latency = max_latency s,
      latencies = latencies s,
      avg_latency = a, median_latency = m, std_latency = d\<rparr>"

definition get_stats :: "pyfloat library \<Rightarrow> stats_dict \<Rightarrow> exn + full_stats" where
  "get_stats lib s =
     (if latencies s \<noteq> [] then
        and_then (statistics_mean lib (latencies s)) (\<lambda>a.
        and_then (statistics_median lib (latencies s)) (\<lambda>m.
        and_then (if length (latencies s) > 1 then statistics_stdev lib (latencies s)
                  else Inr (Fin 0)) (\<lambda>d.
        Inr (with_derived s a m d))))
      else Inr (with_derived s (Fin 0) (Fin 0) (Fin 0)))"

section \<open>JSON values and received data\<close>

text \<open>
  The value \<^verbatim>\<open>json.loads\<close> returns. A JSON object becomes a Python dictionary, here an
  association list read with \<open>map_of\<close>; a JSON number is a Python int or a Python float
  (\<^verbatim>\<open>json.loads\<close> also accepts \<^verbatim>\<open>NaN\<close>, \<^verbatim>\<open>Infinity\<close> and \<^verbatim>\<open>-Infinity\<close>).
\<close>

datatype json =
    JNull
  | JBool bool
  | JInt int
  | JFloat pyfloat
  | JStr string
  | JArr "json list"
  | JObj "(string \<times> json) list"

text \<open>
  \<^verbatim>\<open>request.get(key, default)\<close>: only a dictionary has the method, on any other value
  the attribute lookup raises \<^verbatim>\<open>AttributeError\<close>.
\<close>

fun dict_get :: "json \<Rightarrow> string \<Rightarrow> json \<Rightarrow> exn + json" where
  "dict_get (JObj kvs) k d = Inr (case map_of kvs k of Some v \<Rightarrow> v | None \<Rightarrow> d)"
| "dict_get _ k d = Inl AttributeError"

text \<open>
  A value as the right operand of a float subtraction (\<^verbatim>\<open>current_time - timestamp\<close>): a
  float is taken as it is, an integer is converted and raises \<^verbatim>\<open>OverflowError\<close> when it
  is beyond the range of a float, a boolean is the integer 0 or 1, and any other value
  raises \<^verbatim>\<open>TypeError\<close>.
\<close>

fun as_float :: "json \<Rightarrow> exn + pyfloat" where
  "as_float (JFloat x) = Inr x"
| "as_float (JInt n) = int_to_float n"
| "as_float (JBool b) = Inr (Fin (if b then 1 else 0))"
| "as_float _ = Inl TypeError"

text \<open>The values that are Python numbers.\<close>

fun is_number :: "json \<Rightarrow> bool" where
  "is_number (JFloat x) = True"
| "is_number (JInt n) = True"
| "is_number (JBool b) = True"
| "is_number _ = False"

text \<open>
  What one \<^verbatim>\<open>recv(1024)\<close> returned, classified by what the program's decoding does with
  it: no bytes at all (the peer closed the connection), bytes on which
  \<^verbatim>\<open>data.decode('utf-8')\<close> raises \<^verbatim>\<open>UnicodeDecodeError\<close>, text on which \<^verbatim>\<open>json.loads\<close>
  raises \<^verbatim>\<open>JSONDecodeError\<close>, or text that parses to a JSON value.
\<close>

datatype data = NoData | NotUtf8 | NotJson | Json json

section \<open>The server object\<close>

datatype socket_state = SockOpen | SockClosed

type_synonym client_address = nat

text \<open>The messages the server writes to a connection.\<close>

datatype response =
    Pong real pyfloat string
  | StatsResponse full_stats

text \<open>The lines the server prints.\<close>

datatype line =
    ServerStarted
  | ListeningOn
  | WaitingForClients
  | ClientConnected client_address
  | AcceptFailed exn
  | StartFailed exn
  | RequestDone pyfloat
  | InvalidJson
  | HandlerFailed exn
  | ClientDisconnected
  | ServerStopped

text \<open>
  The attributes of \<^verbatim>\<open>TCPServer\<close> that the modelled methods read or write (\<^verbatim>\<open>host\<close> and
  \<^verbatim>\<open>port\<close> only reach \<^verbatim>\<open>bind\<close>, whose outcome is an input of the model), and the
  console.
\<close>

record server =
  server_socket :: "socket_state option"
  running :: bool
  stats :: stats_dict
  console :: "line list"

definition init_server :: server where
  "init_server =
     \<lparr>server_socket = None, running = False, stats = init_stats, console = []\<rparr>"

text \<open>\<^verbatim>\<open>TCPServer.stop\<close>.\<close>

definition stop :: "server \<Rightarrow> server" where
  "stop srv =
     (let s1 = srv\<lparr>running := False\<rparr>;
          s2 = (case server_socket s1 of
                  Some _ \<Rightarrow> s1\<lparr>server_socket := Some SockClosed\<rparr>
                | None \<Rightarrow> s1)
      in s2\<lparr>console := console s2 @ [ServerStopped]\<rparr>)"

section \<open>The connection handler\<close>

text \<open>
  What the surroundings contribute to one pass of the loop of
  \<^verbatim>\<open>TCPServer.handle_client\<close>: whether another thread has called \<^verbatim>\<open>stop()\<close> since the
  previous test of \<^verbatim>\<open>self.running\<close>, what \<^verbatim>\<open>recv\<close> does, the two clock readings
  (\<^verbatim>\<open>time.time()\<close> as the default of \<^verbatim>\<open>request.get('timestamp', ...)\<close>, and
  \<^verbatim>\<open>current_time\<close>; both finite floats), the text of \<^verbatim>\<open>datetime.now().isoformat()\<close>,
  whether \<^verbatim>\<open>send\<close> raises, and what the library returns to \<^verbatim>\<open>get_stats\<close>.
\<close>

record handler_env =
  stop_called :: bool
  recv :: "exn + data"
  clock_default :: real
  clock_now :: real
  server_time :: string
  send_raises :: bool
  library :: "pyfloat library"

text \<open>
  The body of the inner \<^verbatim>\<open>try\<close> once \<^verbatim>\<open>json.loads\<close> has returned \<open>request\<close>. The result is
  the server afterwards, the messages written to the connection, and the exception that
  leaves the inner \<^verbatim>\<open>try\<close>, if any (none of them is a \<^verbatim>\<open>JSONDecodeError\<close>).
\<close>

definition process_request ::
  "server \<Rightarrow> handler_env \<Rightarrow> json \<Rightarrow> server \<times> response list \<times> exn option" where
  "process_request srv e request =
     (case dict_get request ''type'' (JStr ''ping'') of
        Inl x \<Rightarrow> (srv, [], Some x)
      | Inr request_type \<Rightarrow>
     (case dict_get request ''timestamp'' (JFloat (Fin (clock_default e))) of
        Inl x \<Rightarrow> (srv, [], Some x)
      | Inr timestamp \<Rightarrow>
          if request_type = JStr ''ping'' then
            (let current_time = clock_now e
             in case as_float timestamp of
                  Inl x \<Rightarrow> (srv, [], Some x)
                | Inr t \<Rightarrow>
                    let latency = fmul (fsub (Fin current_time) t) (Fin 1000);
                        srv1 = srv\<lparr>stats := update_stats (stats srv) latency\<rparr>;
                        response = Pong current_time latency (server_time e)
                    in if send_raises e then (srv1, [], Some OSError)
                       else (srv1\<lparr>console := console srv1 @ [RequestDone latency]\<rparr>,
                             [response], None))
          else if request_type = JStr ''stats'' then
            (case get_stats (library e) (stats srv) of
               Inl x \<Rightarrow> (srv, [], Some x)
             | Inr st \<Rightarrow>
                 if send_raises e then (srv, [], Some OSError)
                 else (srv, [StatsResponse st], None))
          else (srv, [], None)))"

text \<open>
  How the loop of a handler ended: the peer closed the connection (\<^verbatim>\<open>break\<close>), the test of
  \<^verbatim>\<open>self.running\<close> failed, an exception reached the outer \<^verbatim>\<open>except\<close>, or the described
  surroundings end with the handler still in its loop.
\<close>

datatype ending = PeerClosed | NotRunning | Raised exn | StillOpen

text \<open>The \<^verbatim>\<open>while self.running\<close> loop of \<^verbatim>\<open>TCPServer.handle_client\<close>.\<close>

fun handle_client_loop ::
  "server \<Rightarrow> handler_env list \<Rightarrow> server \<times> response list \<times> ending" where
  "handle_client_loop srv [] = (srv, [], StillOpen)"
| "handle_client_loop srv (e # es) =
     (let srv0 = (if stop_called e then stop srv else srv)
      in if \<not> running srv0 then (srv0, [], NotRunning)
         else
           (case recv e of
              Inl x \<Rightarrow> (srv0, [], Raised x)
            | Inr NoData \<Rightarrow> (srv0, [], PeerClosed)
            | Inr NotUtf8 \<Rightarrow> (srv0, [], Raised UnicodeDecodeError)
            | Inr NotJson \<Rightarrow>
                handle_client_loop (srv0\<lparr>console := console srv0 @ [InvalidJson]\<rparr>) es
            | Inr (Json request) \<Rightarrow>
                (case process_request srv0 e request of
                   (srv1, out1, Some x) \<Rightarrow> (srv1, out1, Raised x)
                 | (srv1, out1, None) \<Rightarrow>
                     (case handle_client_loop srv1 es of
                        (srv2, out2, fin) \<Rightarrow> (srv2, out1 @ out2, fin)))))"

text \<open>
  \<^verbatim>\<open>TCPServer.handle_client\<close>: the loop, the outer \<^verbatim>\<open>except Exception\<close> that prints the
  error, and the \<^verbatim>\<open>finally\<close> that closes the connection.
\<close>

record handler_result =
  server_after :: server
  sent :: "response list"
  connection :: socket_state
  ending :: ending

definition handle_client :: "server \<Rightarrow> handler_env list \<Rightarrow> handler_result" where
  "handle_client srv es =
     (case handle_client_loop srv es of
        (srv1, out, StillOpen) \<Rightarrow>
          \<lparr>server_after = srv1, sent = out, connection = SockOpen, ending = StillOpen\<rparr>
      | (srv1, out, Raised x) \<Rightarrow>
          \<lparr>server_after =
             srv1\<lparr>console := console srv1 @ [HandlerFailed x, ClientDisconnected]\<rparr>,
           sent = out, connection = SockClosed, ending = Raised x\<rparr>
      | (srv1, out, fin) \<Rightarrow>
          \<lparr>server_after = srv1\<lparr>console := console srv1 @ [ClientDisconnected]\<rparr>,
           sent = out, connection = SockClosed, ending = fin\<rparr>)"

section \<open>Starting the server\<close>

text \<open>
  What the surroundings contribute to one pass of the accept loop: whether another thread
  has called \<^verbatim>\<open>stop()\<close> since the previous test of \<^verbatim>\<open>self.running\<close>, whether it does so
  while \<^verbatim>\<open>accept\<close> blocks, and what \<^verbatim>\<open>accept\<close> does: it returns a connection or raises
  \<^verbatim>\<open>socket.error\<close>.
\<close>

record accept_env =
  stop_before :: bool
  stop_during :: bool
  accept :: "client_address option"

text \<open>
  What the surroundings contribute to \<^verbatim>\<open>TCPServer.start\<close>: which of the socket calls
  before the loop raises, and the passes of the accept loop.
\<close>

record start_env =
  socket_raises :: bool
  setsockopt_raises :: bool
  bind_raises :: bool
  listen_raises :: bool
  accepts :: "accept_env list"

text \<open>
  The accept loop. The result is the server afterwards, the clients for which a handler
  thread was started, and whether the loop was left (otherwise the described surroundings
  end with the server still accepting).
\<close>

fun accept_loop ::
  "server \<Rightarrow> accept_env list \<Rightarrow> server \<times> client_address list \<times> bool" where
  "accept_loop srv [] = (srv, [], False)"
| "accept_loop srv (a # as) =
     (let srv0 = (if stop_before a then stop srv else srv)
      in if \<not> running srv0 then (srv0, [], True)
         else
           (let srv1 = (if stop_during a then stop srv0 else srv0)
            in case accept a of
                 Some c \<Rightarrow>
                   (case accept_loop (srv1\<lparr>console := console srv1 @ [ClientConnected c]\<rparr>) as of
                      (srv2, cs, left) \<Rightarrow> (srv2, c # cs, left))
               | None \<Rightarrow>
                   accept_loop
                     (if running srv1
                      then srv1\<lparr>console := console srv1 @ [AcceptFailed OSError]\<rparr>
                      else srv1) as))"

text \<open>How a call ended: it returned, it raised, or it has not ended.\<close>

datatype outcome = Returned | Propagated exn | Serving

text \<open>
  \<^verbatim>\<open>TCPServer.start\<close>: every exception of the \<^verbatim>\<open>try\<close> block is caught by
  \<^verbatim>\<open>except Exception\<close> and printed, and \<^verbatim>\<open>finally\<close> calls \<^verbatim>\<open>stop()\<close>.
\<close>

definition start_failed :: "server \<Rightarrow> server \<times> client_address list \<times> outcome" where
  "start_failed srv =
     (stop (srv\<lparr>console := console srv @ [StartFailed OSError]\<rparr>), [], Returned)"

definition start :: "server \<Rightarrow> start_env \<Rightarrow> server \<times> client_address list \<times> outcome" where
  "start srv env =
     (if socket_raises env then start_failed srv
      else
        (let srv1 = srv\<lparr>server_socket := Some SockOpen\<rparr>
         in if setsockopt_raises env then start_failed srv1
            else if bind_raises env then start_failed srv1
            else if listen_raises env then start_failed srv1
            else
              (let srv2 = srv1\<lparr>running := True\<rparr>;
                   srv3 = srv2\<lparr>console := console srv2 @
                            [ServerStarted, ListeningOn, WaitingForClients]\<rparr>
               in case accept_loop srv3 (accepts env) of
                    (srv4, cs, True) \<Rightarrow> (stop srv4, cs, Returned)
                  | (srv4, cs, False) \<Rightarrow> (srv4, cs, Serving))))"

section \<open>The client\<close>

text \<open>
  The attributes of \<^verbatim>\<open>TCPClient\<close> that \<^verbatim>\<open>send_ping\<close> and \<^verbatim>\<open>get_stats\<close> use. The list holds
  whatever values \<^verbatim>\<open>send_ping\<close> appended, so its elements are JSON values.
\<close>

record client =
  client_socket :: "socket_state option"
  client_latencies :: "json list"

definition init_client :: client where
  "init_client = \<lparr>client_socket = None, client_latencies = []\<rparr>"


definition ping_request :: "real \<Rightarrow> json" where
  "ping_request t = JObj [(''type'', JStr ''ping''), (''timestamp'', JFloat (Fin t))]"


text \<open>
  \<^verbatim>\<open>statistics.mean\<close> of the values the client has collected. A single number is its
  own mean (a boolean as the integer it is); a single value that is not a number raises
  \<^verbatim>\<open>TypeError\<close>.
\<close>

fun mean_of_one :: "json \<Rightarrow> exn + json" where
  "mean_of_one (JFloat x) = Inr (JFloat x)"
| "mean_of_one (JInt n) = Inr (JInt n)"
| "mean_of_one (JBool b) = Inr (JInt (if b then 1 else 0))"
| "mean_of_one _ = Inl TypeError"

fun statistics_mean_values :: "json library \<Rightarrow> json list \<Rightarrow> exn + json" where
  "statistics_mean_values lib [] = Inl StatisticsError"
| "statistics_mean_values lib [v] = mean_of_one v"
| "statistics_mean_values lib vs = mean_returns lib"

text \<open>The dictionary \<^verbatim>\<open>TCPClient.get_stats\<close> returns.\<close>

record client_stats =
  stat_count :: int
  stat_min :: json
  stat_max :: json
  stat_avg :: json
  stat_median :: json
  stat_std :: json

text \<open>
  \<^verbatim>\<open>TCPClient.get_stats\<close>; \<open>None\<close> is Python's \<^verbatim>\<open>None\<close>. The entries of the dictionary are
  computed in the order in which they are written, and the first exception leaves the
  function.
\<close>

definition client_get_stats :: "json library \<Rightarrow> client \<Rightarrow> exn + client_stats option" where
  "client_get_stats lib c =
     (if client_latencies c = [] then Inr None
      else
        and_then (py_min lib (client_latencies c)) (\<lambda>lo.
        and_then (py_max lib (client_latencies c)) (\<lambda>hi.
        and_then (statistics_mean_values lib (client_latencies c)) (\<lambda>a.
        and_then (statistics_median lib (client_latencies c)) (\<lambda>m.
        and_then (if length (client_latencies c) > 1
                  then statistics_stdev lib (client_latencies c)
                  else Inr (JInt 0)) (\<lambda>d.
        Inr (Some \<lparr>stat_count = int (length (client_latencies c)), stat_min = lo,
                   stat_max = hi, stat_avg = a, stat_median = m, stat_std = d\<rparr>)))))))"

section \<open>States used as concrete inputs\<close>

text \<open>
  The server as \<^verbatim>\<open>start\<close> has it when it enters the accept loop (listening socket
  created, \<^verbatim>\<open>running\<close> set), which is when handler threads exist; and the client after a
  successful \<^verbatim>\<open>connect\<close>.
\<close>

definition running_server :: server where
  "running_server = init_server\<lparr>server_socket := Some SockOpen, running := True\<rparr>"


text \<open>
  A library that is never asked about two or more values: the entries are never read.
\<close>

definition unused_library :: "'a library" where
  "unused_library =
     \<lparr>min_returns = Inl ValueError, max_returns = Inl ValueError,
      mean_returns = Inl StatisticsError, median_returns = Inl StatisticsError,
      stdev_returns = Inl StatisticsError\<rparr>"

section \<open>Handler threads updating the shared statistics\<close>

text \<open>
  Every handler thread calls \<^verbatim>\<open>update_stats\<close> on the one dictionary of the server, and
  neither \<^verbatim>\<open>update_stats\<close> nor \<^verbatim>\<open>get_stats\<close> takes a lock (the program creates none). The
  threads are therefore interleaved at the points where Python may switch threads: between
  the statements of \<^verbatim>\<open>update_stats\<close>, and inside \<^verbatim>\<open>d[k] += v\<close> between reading \<^verbatim>\<open>d[k]\<close>
  and storing the sum. \<^verbatim>\<open>list.append\<close> is one step.

  A thread inside \<^verbatim>\<open>update_stats\<close> is its argument, its position, and the two values it
  has read and not yet stored.
\<close>

datatype position =
    ReadCount
  | WriteCount
  | ReadTotal
  | WriteTotal
  | AppendSample
  | TestMin
  | WriteMin
  | TestMax
  | WriteMax
  | Finished

record thread =
  latency_arg :: pyfloat
  pc :: position
  read_count :: int
  read_total :: pyfloat

definition new_thread :: "pyfloat \<Rightarrow> thread" where
  "new_thread x =
     \<lparr>latency_arg = x, pc = ReadCount, read_count = 0, read_total = Fin 0\<rparr>"

text \<open>One step of a thread inside \<^verbatim>\<open>update_stats\<close>; a finished thread stays as it is.\<close>

definition thread_step :: "stats_dict \<Rightarrow> thread \<Rightarrow> stats_dict \<times> thread" where
  "thread_step s t =
     (case pc t of
        ReadCount \<Rightarrow> (s, t\<lparr>read_count := total_requests s, pc := WriteCount\<rparr>)
      | WriteCount \<Rightarrow> (s\<lparr>total_requests := read_count t + 1\<rparr>, t\<lparr>pc := ReadTotal\<rparr>)
      | ReadTotal \<Rightarrow> (s, t\<lparr>read_total := total_latency s, pc := WriteTotal\<rparr>)
      | WriteTotal \<Rightarrow>
          (s\<lparr>total_latency := fadd (read_total t) (latency_arg t)\<rparr>,
           t\<lparr>pc := AppendSample\<rparr>)
      | AppendSample \<Rightarrow> (s\<lparr>latencies := latencies s @ [latency_arg t]\<rparr>, t\<lparr>pc := TestMin\<rparr>)
      | TestMin \<Rightarrow>
          (s, t\<lparr>pc := (if flt (latency_arg t) (min_latency s) then WriteMin
                        else TestMax)\<rparr>)
      | WriteMin \<Rightarrow> (s\<lparr>min_latency := latency_arg t\<rparr>, t\<lparr>pc := TestMax\<rparr>)
      | TestMax \<Rightarrow>
          (s, t\<lparr>pc := (if flt (max_latency s) (latency_arg t) then WriteMax
                        else Finished)\<rparr>)
      | WriteMax \<Rightarrow> (s\<lparr>max_latency := latency_arg t\<rparr>, t\<lparr>pc := Finished\<rparr>)
      | Finished \<Rightarrow> (s, t))"

text \<open>
  The shared dictionary with the threads working on it; a schedule names, step by step,
  the thread that runs next.
\<close>

type_synonym config = "stats_dict \<times> thread list"

definition sched_step :: "config \<Rightarrow> nat \<Rightarrow> config" where
  "sched_step cfg i =
     (case cfg of (s, ts) \<Rightarrow>
        if i < length ts
        then (case thread_step s (ts ! i) of (s1, t1) \<Rightarrow> (s1, ts[i := t1]))
        else (s, ts))"

definition run_schedule :: "nat list \<Rightarrow> config \<Rightarrow> config" where
  "run_schedule sched cfg = foldl sched_step cfg sched"

text \<open>
  The schedule without overlap: thread 0 runs to its end, then thread 1, and so on. Nine
  steps finish a thread.
\<close>

definition one_after_another :: "nat \<Rightarrow> nat list" where
  "one_after_another n = concat (map (replicate 9) [0..<n])"

text \<open>
  A thread run on its own for a number of steps, and the state in which a thread ends
  that ran \<^verbatim>\<open>update_stats\<close> without interference from the dictionary \<open>s\<close>.
\<close>

fun thread_run :: "nat \<Rightarrow> stats_dict \<times> thread \<Rightarrow> stats_dict \<times> thread" where
  "thread_run 0 c = c"
| "thread_run (Suc n) c = thread_run n (thread_step (fst c) (snd c))"

definition done_thread :: "stats_dict \<Rightarrow> pyfloat \<Rightarrow> thread" where
  "done_thread s x =
     \<lparr>latency_arg = x, pc = Finished, read_count = total_requests s,
      read_total = total_latency s\<rparr>"

fun done_threads :: "stats_dict \<Rightarrow> pyfloat list \<Rightarrow> thread list" where
  "done_threads s [] = []"
| "done_threads s (x # xs) = done_thread s x # done_threads (update_stats s x) xs"

section \<open>Float arithmetic inside the range\<close>

lemma float_overflow_large: "10 ^ 18 < float_overflow"
  by (simp add: float_overflow_def)

lemma fl_small: "\<bar>x\<bar> \<le> 10 ^ 18 \<Longrightarrow> fl x = Fin x"
  using float_overflow_large by (auto simp add: fl_def abs_le_iff)



lemma fle_refl: "x \<noteq> NaN \<Longrightarrow> fle x x"
  by (cases x) simp_all

lemma not_flt_fle: "x \<noteq> NaN \<Longrightarrow> y \<noteq> NaN \<Longrightarrow> \<not> flt x y \<Longrightarrow> fle y x"
  by (cases x; cases y) simp_all

lemma flt_fle_trans: "flt x y \<Longrightarrow> fle y z \<Longrightarrow> fle x z"
  by (cases x; cases y; cases z) simp_all

lemma fle_flt_trans: "fle x y \<Longrightarrow> flt y z \<Longrightarrow> fle x z"
  by (cases x; cases y; cases z) simp_all

lemma flt_not_NaN: "flt x y \<Longrightarrow> x \<noteq> NaN \<and> y \<noteq> NaN"
  by (cases x; cases y) simp_all

section \<open>Properties of the statistics\<close>

lemma update_stats_count:
  "total_requests (update_stats s x) = total_requests s + 1"
  by (simp add: update_stats_def Let_def)

lemma update_stats_latencies:
  "latencies (update_stats s x) = latencies s @ [x]"
  by (simp add: update_stats_def Let_def)

lemma update_stats_min_not_NaN:
  "min_latency s \<noteq> NaN \<Longrightarrow> min_latency (update_stats s x) \<noteq> NaN"
  using flt_not_NaN by (auto simp add: update_stats_def Let_def)

lemma update_stats_max_not_NaN:
  "max_latency s \<noteq> NaN \<Longrightarrow> max_latency (update_stats s x) \<noteq> NaN"
  using flt_not_NaN by (auto simp add: update_stats_def Let_def)

lemma update_stats_min_new:
  "x \<noteq> NaN \<Longrightarrow> min_latency s \<noteq> NaN \<Longrightarrow> fle (min_latency (update_stats s x)) x"
  by (simp add: update_stats_def Let_def fle_refl not_flt_fle)

lemma update_stats_max_new:
  "x \<noteq> NaN \<Longrightarrow> max_latency s \<noteq> NaN \<Longrightarrow> fle x (max_latency (update_stats s x))"
  by (simp add: update_stats_def Let_def fle_refl not_flt_fle)

lemma update_stats_min_old:
  "fle (min_latency s) y \<Longrightarrow> fle (min_latency (update_stats s x)) y"
  using flt_fle_trans by (auto simp add: update_stats_def Let_def)

lemma update_stats_max_old:
  "fle y (max_latency s) \<Longrightarrow> fle y (max_latency (update_stats s x))"
  using fle_flt_trans by (auto simp add: update_stats_def Let_def)

lemma foldl_update_stats_count:
  "total_requests (foldl update_stats s L) = total_requests s + int (length L)"
  by (induction L arbitrary: s) (simp_all add: update_stats_count)

lemma foldl_update_stats_latencies:
  "latencies (foldl update_stats s L) = latencies s @ L"
  by (induction L arbitrary: s) (simp_all add: update_stats_latencies)

lemma foldl_update_stats_keeps:
  "fle (min_latency s) y \<Longrightarrow> fle y (max_latency s) \<Longrightarrow>
   fle (min_latency (foldl update_stats s L)) y \<and>
   fle y (max_latency (foldl update_stats s L))"
  by (induction L arbitrary: s) (simp_all add: update_stats_min_old update_stats_max_old)

lemma foldl_update_stats_bounds:
  "min_latency s \<noteq> NaN \<Longrightarrow> max_latency s \<noteq> NaN \<Longrightarrow> y \<in> set L \<Longrightarrow> y \<noteq> NaN \<Longrightarrow>
   fle (min_latency (foldl update_stats s L)) y \<and>
   fle y (max_latency (foldl update_stats s L))"
proof (induction L arbitrary: s)
  case Nil
  then show ?case by simp
next
  case (Cons x xs)
  have inv: "min_latency (update_stats s x) \<noteq> NaN" "max_latency (update_stats s x) \<noteq> NaN"
    using Cons.prems(1,2) by (simp_all add: update_stats_min_not_NaN update_stats_max_not_NaN)
  show ?case
  proof (cases "y = x")
    case True
    have "fle (min_latency (update_stats s x)) x" "fle x (max_latency (update_stats s x))"
      using Cons.prems True by (simp_all add: update_stats_min_new update_stats_max_new)
    then show ?thesis
      using foldl_update_stats_keeps [of "update_stats s x" x xs] True by simp
  next
    case False
    with Cons.prems have "y \<in> set xs" by simp
    then show ?thesis
      using Cons.IH [OF inv] Cons.prems(4) by simp
  qed
qed

text \<open>
  C8, as stated, fails. A latency can be NaN (a ping whose timestamp is the JSON
  \<^verbatim>\<open>NaN\<close> gives one). \<^verbatim>\<open>update_stats\<close> counts and appends it, but both of its comparisons
  are false, so \<^verbatim>\<open>min_latency\<close> stays infinite and \<^verbatim>\<open>max_latency\<close> stays 0: the recorded
  sample is not between them.
\<close>

theorem update_stats_NaN_outside_bounds:
  "update_stats init_stats NaN =
     \<lparr>total_requests = 1, total_latency = NaN, min_latency = PosInf,
      max_latency = Fin 0, latencies = [NaN]\<rparr> \<and>
   \<not> fle (min_latency (update_stats init_stats NaN)) NaN \<and>
   \<not> fle NaN (max_latency (update_stats init_stats NaN))"
  by (simp add: update_stats_def init_stats_def Let_def)

text \<open>
  C8, amended. After any sequence \<open>L\<close> of \<^verbatim>\<open>update_stats\<close> calls on the freshly initialised
  statistics (so after each call of a longer sequence, \<open>L\<close> being the calls made so far),
  \<^verbatim>\<open>total_requests\<close> equals the number of recorded samples, the list of samples is \<open>L\<close>, and
  every recorded sample that is not NaN lies between \<^verbatim>\<open>min_latency\<close> and \<^verbatim>\<open>max_latency\<close>;
  negative and infinite samples included, \<^verbatim>\<open>min_latency\<close> starting at infinity and
  \<^verbatim>\<open>max_latency\<close> at 0.
\<close>

theorem update_stats_invariant:
  "total_requests (foldl update_stats init_stats L) = int (length L) \<and>
   total_requests (foldl update_stats init_stats L)
     = int (length (latencies (foldl update_stats init_stats L))) \<and>
   latencies (foldl update_stats init_stats L) = L \<and>
   (\<forall>y \<in> set L. y \<noteq> NaN \<longrightarrow>
      fle (min_latency (foldl update_stats init_stats L)) y \<and>
      fle y (max_latency (foldl update_stats init_stats L)))"
proof -
  have "total_requests (foldl update_stats init_stats L) = int (length L)"
    by (simp add: foldl_update_stats_count init_stats_def)
  moreover have "latencies (foldl update_stats init_stats L) = L"
    by (simp add: foldl_update_stats_latencies init_stats_def)
  moreover have "\<forall>y \<in> set L. y \<noteq> NaN \<longrightarrow>
      fle (min_latency (foldl update_stats init_stats L)) y \<and>
      fle y (max_latency (foldl update_stats init_stats L))"
    using foldl_update_stats_bounds [of init_stats _ L] by (simp add: init_stats_def)
  ultimately show ?thesis by simp
qed

theorem update_stats_invariant_witness:
  "Fin (- 7) \<in> set [Fin (- 5), NaN, Fin 3, Fin (- 7), NegInf] \<and> Fin (- 7) \<noteq> NaN \<and>
   total_requests (foldl update_stats init_stats [Fin (- 5), NaN, Fin 3, Fin (- 7), NegInf]) = 5 \<and>
   fle (min_latency (foldl update_stats init_stats [Fin (- 5), NaN, Fin 3, Fin (- 7), NegInf]))
     (Fin (- 7)) \<and>
   fle (Fin (- 7))
     (max_latency (foldl update_stats init_stats [Fin (- 5), NaN, Fin 3, Fin (- 7), NegInf]))"
  using update_stats_invariant [of "[Fin (- 5), NaN, Fin 3, Fin (- 7), NegInf]"] by simp

section \<open>Reading the statistics\<close>

lemma get_stats_empty:
  "latencies s = [] \<Longrightarrow> get_stats lib s = Inr (with_derived s (Fin 0) (Fin 0) (Fin 0))"
  by (simp add: get_stats_def)

lemma get_stats_single:
  "latencies s = [x] \<Longrightarrow> get_stats lib s = Inr (with_derived s x x (Fin 0))"
  by (simp add: get_stats_def and_then_def)

lemma mean_of_one_number: "is_number v \<Longrightarrow> \<exists>a. mean_of_one v = Inr a"
  by (cases v) simp_all

lemma client_get_stats_single:
  "mean_of_one v = Inr a \<Longrightarrow> client_latencies c = [v] \<Longrightarrow>
   client_get_stats lib c =
     Inr (Some \<lparr>stat_count = 1, stat_min = v, stat_max = v, stat_avg = a,
                stat_median = v, stat_std = JInt 0\<rparr>)"
  by (simp add: client_get_stats_def and_then_def)

text \<open>
  C3, as stated, fails for the client: \<^verbatim>\<open>TCPClient.get_stats\<close> on a client that has
  recorded nothing returns \<^verbatim>\<open>None\<close>, not a result with count 0 and zero statistics.
\<close>

theorem client_get_stats_empty_is_None:
  "client_get_stats unused_library init_client = Inr None"
  by (simp add: client_get_stats_def init_client_def)

text \<open>
  C3, amended. On the server's statistics with nothing recorded, \<^verbatim>\<open>get_stats\<close> raises no
  error and returns \<^verbatim>\<open>total_requests\<close> 0 with average, median and standard deviation 0;
  the client's \<^verbatim>\<open>get_stats\<close> with nothing recorded returns \<^verbatim>\<open>None\<close>, without raising. With
  exactly one sample recorded, the server's \<^verbatim>\<open>get_stats\<close> returns a standard deviation of
  0, and so does the client's when that one sample is a number.
\<close>

theorem get_stats_empty_and_single:
  "get_stats lib init_stats = Inr (with_derived init_stats (Fin 0) (Fin 0) (Fin 0)) \<and>
   total_requests (with_derived init_stats (Fin 0) (Fin 0) (Fin 0)) = 0 \<and>
   avg_latency (with_derived init_stats (Fin 0) (Fin 0) (Fin 0)) = Fin 0 \<and>
   median_latency (with_derived init_stats (Fin 0) (Fin 0) (Fin 0)) = Fin 0 \<and>
   std_latency (with_derived init_stats (Fin 0) (Fin 0) (Fin 0)) = Fin 0 \<and>
   client_get_stats clib init_client = Inr None \<and>
   (\<exists>r. get_stats lib (update_stats init_stats x) = Inr r \<and>
        total_requests r = 1 \<and> std_latency r = Fin 0) \<and>
   (is_number v \<longrightarrow>
      (\<exists>r. client_get_stats clib (init_client\<lparr>client_latencies := [v]\<rparr>) = Inr (Some r) \<and>
           stat_count r = 1 \<and> stat_std r = JInt 0))"
proof -
  have empty: "get_stats lib init_stats = Inr (with_derived init_stats (Fin 0) (Fin 0) (Fin 0))"
    by (rule get_stats_empty) (simp add: init_stats_def)
  have fields: "total_requests (with_derived init_stats (Fin 0) (Fin 0) (Fin 0)) = 0"
    "avg_latency (with_derived init_stats (Fin 0) (Fin 0) (Fin 0)) = Fin 0"
    "median_latency (with_derived init_stats (Fin 0) (Fin 0) (Fin 0)) = Fin 0"
    "std_latency (with_derived init_stats (Fin 0) (Fin 0) (Fin 0)) = Fin 0"
    by (simp_all add: with_derived_def init_stats_def)
  have client_empty: "client_get_stats clib init_client = Inr None"
    by (simp add: client_get_stats_def init_client_def)
  have "latencies (update_stats init_stats x) = [x]"
    by (simp add: update_stats_latencies init_stats_def)
  then have "get_stats lib (update_stats init_stats x)
      = Inr (with_derived (update_stats init_stats x) x x (Fin 0))"
    by (rule get_stats_single)
  then have one: "\<exists>r. get_stats lib (update_stats init_stats x) = Inr r \<and>
      total_requests r = 1 \<and> std_latency r = Fin 0"
    by (simp add: with_derived_def update_stats_count init_stats_def)
  have client_one: "is_number v \<longrightarrow>
      (\<exists>r. client_get_stats clib (init_client\<lparr>client_latencies := [v]\<rparr>) = Inr (Some r) \<and>
           stat_count r = 1 \<and> stat_std r = JInt 0)"
  proof
    assume "is_number v"
    then obtain a where "mean_of_one v = Inr a"
      using mean_of_one_number by blast
    then show "\<exists>r. client_get_stats clib (init_client\<lparr>client_latencies := [v]\<rparr>)
        = Inr (Some r) \<and> stat_count r = 1 \<and> stat_std r = JInt 0"
      by (simp add: client_get_stats_single)
  qed
  from empty fields client_empty one client_one show ?thesis by blast
qed

theorem get_stats_empty_and_single_witness:
  "is_number (JFloat (Fin 12)) \<and>
   (\<exists>r. client_get_stats unused_library (init_client\<lparr>client_latencies := [JFloat (Fin 12)]\<rparr>)
          = Inr (Some r) \<and>
        stat_count r = 1 \<and> stat_std r = JInt 0)"
  using get_stats_empty_and_single
    [where lib = unused_library and x = "Fin 0" and clib = unused_library
       and v = "JFloat (Fin 12)"]
  by simp

text \<open>
  C10. A stats query handled while the server's statistics are as \<^verbatim>\<open>__init__\<close> left them
  is answered (when \<^verbatim>\<open>send\<close> succeeds) with a \<^verbatim>\<open>stats_response\<close> that carries the initial
  values unchanged: \<^verbatim>\<open>total_requests\<close> 0, \<^verbatim>\<open>min_latency\<close> infinity, not 0, and
  \<^verbatim>\<open>max_latency\<close> 0.
\<close>

theorem stats_query_initial_sentinels:
  "stats srv = init_stats \<Longrightarrow> map_of kvs ''type'' = Some (JStr ''stats'') \<Longrightarrow>
   \<not> send_raises e \<Longrightarrow>
   \<exists>r. process_request srv e (JObj kvs) = (srv, [StatsResponse r], None) \<and>
       total_requests r = 0 \<and> min_latency r = PosInf \<and> max_latency r = Fin 0 \<and>
       latencies r = []"
  by (simp add: process_request_def get_stats_empty init_stats_def with_derived_def)

theorem stats_query_initial_sentinels_witness:
  "stats init_server = init_stats \<and>
   map_of [(''type'', JStr ''stats'')] ''type'' = Some (JStr ''stats'') \<and>
   (\<exists>r. process_request init_server
          \<lparr>stop_called = False, recv = Inr (Json (JObj [(''type'', JStr ''stats'')])),
           clock_default = 5, clock_now = 5, server_time = ''now'', send_raises = False,
           library = unused_library\<rparr>
          (JObj [(''type'', JStr ''stats'')]) = (init_server, [StatsResponse r], None) \<and>
        total_requests r = 0 \<and> min_latency r = PosInf \<and> max_latency r = Fin 0 \<and>
        latencies r = [])"
  using stats_query_initial_sentinels [of init_server "[(''type'', JStr ''stats'')]"
      "\<lparr>stop_called = False, recv = Inr (Json (JObj [(''type'', JStr ''stats'')])),
           clock_default = 5, clock_now = 5, server_time = ''now'', send_raises = False,
           library = unused_library\<rparr>"]
  by (simp add: init_server_def)

section \<open>Handling a request\<close>




text \<open>
  A timestamp may be NaN: the latency is then NaN, and it is recorded and returned like
  any other.
\<close>

lemma NaN_timestamp_records_NaN:
  "process_request running_server
     \<lparr>stop_called = False,
      recv = Inr (Json (JObj [(''type'', JStr ''ping''), (''timestamp'', JFloat NaN)])),
      clock_default = 5, clock_now = 5, server_time = ''now'', send_raises = False,
      library = unused_library\<rparr>
     (JObj [(''type'', JStr ''ping''), (''timestamp'', JFloat NaN)])
   = (running_server\<lparr>stats := update_stats init_stats NaN,
        console := [RequestDone NaN]\<rparr>,
      [Pong 5 NaN ''now''], None)"
  by (simp add: process_request_def fsub_def running_server_def init_server_def)



section \<open>The handler loop\<close>

text \<open>
  Text that is not JSON costs one exchange only: the handler prints the warning and goes
  on with the next pass of its loop.
\<close>

lemma handle_client_loop_not_json:
  "\<not> stop_called e \<Longrightarrow> running srv \<Longrightarrow> recv e = Inr NotJson \<Longrightarrow>
   handle_client_loop srv (e # es)
     = handle_client_loop (srv\<lparr>console := console srv @ [InvalidJson]\<rparr>) es"
  by simp

text \<open>
  C6. A non-empty payload that fails to decode should cost one exchange only. The handler
  does so for text that is not JSON (\<open>handle_client_loop_not_json\<close>), but bytes that are
  not UTF-8 raise \<^verbatim>\<open>UnicodeDecodeError\<close> in \<^verbatim>\<open>data.decode('utf-8')\<close>, which the inner
  \<^verbatim>\<open>except json.JSONDecodeError\<close> does not catch: the outer \<^verbatim>\<open>except\<close> ends the handler and
  the connection is closed. Here the valid ping that follows is never answered.
\<close>

theorem handle_client_closes_on_invalid_utf8:
  "handle_client running_server
     [\<lparr>stop_called = False, recv = Inr NotUtf8, clock_default = 1, clock_now = 1,
       server_time = ''t1'', send_raises = False,
       library = unused_library\<rparr>,
      \<lparr>stop_called = False, recv = Inr (Json (ping_request 2)), clock_default = 3,
       clock_now = 3, server_time = ''t2'', send_raises = False,
       library = unused_library\<rparr>]
   = \<lparr>server_after =
         running_server\<lparr>console := [HandlerFailed UnicodeDecodeError, ClientDisconnected]\<rparr>,
      sent = [], connection = SockClosed, ending = Raised UnicodeDecodeError\<rparr>"
  by (simp add: handle_client_def running_server_def init_server_def)

text \<open>
  Handling a request leaves the \<^verbatim>\<open>running\<close> flag alone, so as long as no other thread
  calls \<^verbatim>\<open>stop()\<close> a handler never leaves its loop on the flag.
\<close>

lemma process_request_running:
  "process_request srv e r = (srv1, out, x) \<Longrightarrow> running srv1 = running srv"
  by (auto simp add: process_request_def Let_def split: sum.splits if_splits)

lemma handle_client_loop_not_stopped:
  "running srv \<Longrightarrow> \<forall>e \<in> set es. \<not> stop_called e \<Longrightarrow>
   snd (snd (handle_client_loop srv es)) \<noteq> NotRunning"
proof (induction es arbitrary: srv)
  case Nil
  show ?case by simp
next
  case (Cons e es)
  from Cons.prems have no_stop: "\<not> stop_called e" and rest: "\<forall>e \<in> set es. \<not> stop_called e"
    by simp_all
  show ?case
  proof (cases "recv e")
    case (Inl x)
    with Cons.prems no_stop show ?thesis by simp
  next
    case (Inr d)
    show ?thesis
    proof (cases d)
      case NoData
      with Inr Cons.prems no_stop show ?thesis by simp
    next
      case NotUtf8
      with Inr Cons.prems no_stop show ?thesis by simp
    next
      case NotJson
      have "running (srv\<lparr>console := console srv @ [InvalidJson]\<rparr>)"
        using Cons.prems(1) by simp
      from Cons.IH [OF this rest] NotJson Inr Cons.prems(1) no_stop
      show ?thesis by simp
    next
      case (Json request)
      obtain srv1 out1 x where p: "process_request srv e request = (srv1, out1, x)"
        by (cases "process_request srv e request") auto
      then have r1: "running srv1"
        using process_request_running Cons.prems(1) by blast
      show ?thesis
      proof (cases x)
        case None
        from Cons.IH [OF r1 rest] p None Json Inr Cons.prems(1) no_stop
        show ?thesis by (auto split: prod.splits)
      next
        case (Some y)
        with p Json Inr Cons.prems(1) no_stop show ?thesis by simp
      qed
    qed
  qed
qed

text \<open>
  C4, as stated, fails: the handler's loop is \<^verbatim>\<open>while self.running\<close>. Here another thread
  calls \<^verbatim>\<open>stop()\<close> before the handler tests the flag; the peer has not disconnected (a
  valid ping is waiting to be read) and no I/O error occurs, yet the handler leaves its
  loop and closes the connection without answering.
\<close>

theorem handle_client_stopped_with_ping_pending:
  "handle_client running_server
     [\<lparr>stop_called = True, recv = Inr (Json (ping_request 2)), clock_default = 3,
       clock_now = 3, server_time = ''t'', send_raises = False,
       library = unused_library\<rparr>]
   = \<lparr>server_after =
         running_server\<lparr>server_socket := Some SockClosed, running := False,
           console := [ServerStopped, ClientDisconnected]\<rparr>,
      sent = [], connection = SockClosed, ending = NotRunning\<rparr>"
  by (simp add: handle_client_def running_server_def init_server_def stop_def)

text \<open>
  A handler that is still in its loop after some passes goes on from there.
\<close>

lemma handle_client_loop_append:
  "handle_client_loop srv pre = (srv1, out, StillOpen) \<Longrightarrow>
   handle_client_loop srv (pre @ rest) =
     (case handle_client_loop srv1 rest of (srv2, out2, fin) \<Rightarrow> (srv2, out @ out2, fin))"
proof (induction pre arbitrary: srv out)
  case Nil
  then show ?case by (simp split: prod.splits)
next
  case (Cons e es)
  let ?srv0 = "if stop_called e then stop srv else srv"
  from Cons.prems have run: "running ?srv0"
    by (auto simp add: Let_def split: if_splits)
  show ?case
  proof (cases "recv e")
    case (Inl x)
    with Cons.prems run show ?thesis by (simp add: Let_def)
  next
    case (Inr d)
    show ?thesis
    proof (cases d)
      case NoData
      with Inr Cons.prems run show ?thesis by (simp add: Let_def)
    next
      case NotUtf8
      with Inr Cons.prems run show ?thesis by (simp add: Let_def)
    next
      case NotJson
      with Inr Cons.prems run
      have "handle_client_loop (?srv0\<lparr>console := console ?srv0 @ [InvalidJson]\<rparr>) es
          = (srv1, out, StillOpen)"
        by (simp add: Let_def)
      from Cons.IH [OF this] NotJson Inr run show ?thesis
        by (simp add: Let_def)
    next
      case (Json request)
      obtain srvp outp x where p: "process_request ?srv0 e request = (srvp, outp, x)"
        by (cases "process_request ?srv0 e request") auto
      show ?thesis
      proof (cases x)
        case (Some y)
        with p Json Inr Cons.prems run show ?thesis by (simp add: Let_def)
      next
        case None
        obtain srvq outq finq where q: "handle_client_loop srvp es = (srvq, outq, finq)"
          by (cases "handle_client_loop srvp es") auto
        with p None Json Inr Cons.prems run
        have eqs: "srvq = srv1" "out = outp @ outq" "finq = StillOpen"
          by (simp_all add: Let_def)
        from q eqs have "handle_client_loop srvp es = (srv1, outq, StillOpen)"
          by simp
        from Cons.IH [OF this] p None Json Inr run eqs show ?thesis
          by (simp add: Let_def split: prod.splits)
      qed
    qed
  qed
qed

text \<open>
  C4, amended. \<^verbatim>\<open>stop()\<close> does not interrupt a handler in the middle of an exchange:
  what the handler has handled and sent so far stands. But the handler tests the server's
  \<^verbatim>\<open>running\<close> flag before every read, and at its first test after \<^verbatim>\<open>stop()\<close>, whenever in
  the life of the connection that is, it leaves its loop and closes the connection without
  reading or answering anything further, whatever the peer does. (Without a \<^verbatim>\<open>stop()\<close> the
  flag never ends the loop: \<open>handle_client_loop_not_stopped\<close>.)
\<close>

theorem handle_client_exits_when_not_running:
  "handle_client_loop srv pre = (srv1, out, StillOpen) \<Longrightarrow>
   stop_called e \<or> \<not> running srv1 \<Longrightarrow>
   handle_client srv (pre @ e # es) =
     \<lparr>server_after =
        (if stop_called e then stop srv1 else srv1)
          \<lparr>console := console (if stop_called e then stop srv1 else srv1)
             @ [ClientDisconnected]\<rparr>,
      sent = out, connection = SockClosed, ending = NotRunning\<rparr>"
proof -
  assume pre: "handle_client_loop srv pre = (srv1, out, StillOpen)"
    and flag: "stop_called e \<or> \<not> running srv1"
  from flag have "handle_client_loop srv1 (e # es) =
      ((if stop_called e then stop srv1 else srv1), [], NotRunning)"
    by (auto simp add: stop_def Let_def split: option.splits)
  with handle_client_loop_append [OF pre, of "e # es"]
  have "handle_client_loop srv (pre @ e # es) =
      ((if stop_called e then stop srv1 else srv1), out, NotRunning)"
    by simp
  then show ?thesis
    by (simp add: handle_client_def)
qed

theorem handle_client_exits_when_not_running_witness:
  "handle_client_loop running_server
     [\<lparr>stop_called = False, recv = Inr (Json (ping_request 7)), clock_default = 8,
       clock_now = 9, server_time = ''t'', send_raises = False,
       library = unused_library\<rparr>]
   = (running_server\<lparr>stats := update_stats init_stats (Fin 2000),
        console := [RequestDone (Fin 2000)]\<rparr>,
      [Pong 9 (Fin 2000) ''t''], StillOpen) \<and>
   stop_called \<lparr>stop_called = True, recv = Inr (Json (ping_request 10)),
     clock_default = 11, clock_now = 12, server_time = ''u'', send_raises = False,
       library = unused_library\<rparr> \<and>
   sent (handle_client running_server
     [\<lparr>stop_called = False, recv = Inr (Json (ping_request 7)), clock_default = 8,
       clock_now = 9, server_time = ''t'', send_raises = False,
       library = unused_library\<rparr>,
      \<lparr>stop_called = True, recv = Inr (Json (ping_request 10)),
       clock_default = 11, clock_now = 12, server_time = ''u'', send_raises = False,
       library = unused_library\<rparr>,
      \<lparr>stop_called = False, recv = Inr (Json (ping_request 13)),
       clock_default = 14, clock_now = 15, server_time = ''v'', send_raises = False,
       library = unused_library\<rparr>])
     = [Pong 9 (Fin 2000) ''t''] \<and>
   ending (handle_client running_server
     [\<lparr>stop_called = False, recv = Inr (Json (ping_request 7)), clock_default = 8,
       clock_now = 9, server_time = ''t'', send_raises = False,
       library = unused_library\<rparr>,
      \<lparr>stop_called = True, recv = Inr (Json (ping_request 10)),
       clock_default = 11, clock_now = 12, server_time = ''u'', send_raises = False,
       library = unused_library\<rparr>,
      \<lparr>stop_called = False, recv = Inr (Json (ping_request 13)),
       clock_default = 14, clock_now = 15, server_time = ''v'', send_raises = False,
       library = unused_library\<rparr>])
     = NotRunning"
proof -
  let ?e1 = "\<lparr>stop_called = False, recv = Inr (Json (ping_request 7)), clock_default = 8,
       clock_now = 9, server_time = ''t'', send_raises = False,
       library = unused_library\<rparr>"
  let ?e2 = "\<lparr>stop_called = True, recv = Inr (Json (ping_request 10)),
       clock_default = 11, clock_now = 12, server_time = ''u'', send_raises = False,
       library = unused_library\<rparr>"
  let ?e3 = "\<lparr>stop_called = False, recv = Inr (Json (ping_request 13)),
       clock_default = 14, clock_now = 15, server_time = ''v'', send_raises = False,
       library = unused_library\<rparr>"
  have pre: "handle_client_loop running_server [?e1]
     = (running_server\<lparr>stats := update_stats init_stats (Fin 2000),
          console := [RequestDone (Fin 2000)]\<rparr>,
        [Pong 9 (Fin 2000) ''t''], StillOpen)"
    by (simp add: process_request_def ping_request_def running_server_def init_server_def
        fsub_def fl_small Let_def)
  have flag: "stop_called ?e2 \<or>
      \<not> running (running_server\<lparr>stats := update_stats init_stats (Fin 2000),
          console := [RequestDone (Fin 2000)]\<rparr>)"
    by simp
  note inst = handle_client_exits_when_not_running [OF pre flag, of "[?e3]"]
  have "sent (handle_client running_server [?e1, ?e2, ?e3]) = [Pong 9 (Fin 2000) ''t'']"
    "ending (handle_client running_server [?e1, ?e2, ?e3]) = NotRunning"
    using inst by simp_all
  with pre show ?thesis by simp
qed

section \<open>Starting the server\<close>

text \<open>
  When every socket call before the loop succeeds, \<^verbatim>\<open>start\<close> accepts connections until
  \<^verbatim>\<open>stop()\<close> is called; an \<^verbatim>\<open>accept\<close> that fails because of the \<^verbatim>\<open>stop()\<close> prints nothing.
\<close>

lemma start_accepts_when_bound:
  "start init_server
     \<lparr>socket_raises = False, setsockopt_raises = False, bind_raises = False,
      listen_raises = False,
      accepts = [\<lparr>stop_before = False, stop_during = False, accept = Some 1\<rparr>,
                 \<lparr>stop_before = False, stop_during = True, accept = None\<rparr>,
                 \<lparr>stop_before = False, stop_during = False, accept = Some 2\<rparr>]\<rparr>
   = (init_server\<lparr>server_socket := Some SockClosed,
        console := [ServerStarted, ListeningOn, WaitingForClients, ClientConnected 1,
                    ServerStopped, ServerStopped]\<rparr>, [1], Returned)"
  by (simp add: start_def start_failed_def stop_def init_server_def)

text \<open>
  C2, as stated, fails: when \<^verbatim>\<open>bind\<close> raises, \<^verbatim>\<open>start\<close> catches the exception, prints it,
  calls \<^verbatim>\<open>stop()\<close> and returns normally. Nothing is raised to the caller.
\<close>

theorem start_bind_failure_not_propagated:
  "start init_server
     \<lparr>socket_raises = False, setsockopt_raises = False, bind_raises = True,
      listen_raises = False,
      accepts = [\<lparr>stop_before = False, stop_during = False, accept = Some 1\<rparr>]\<rparr>
   = (init_server\<lparr>server_socket := Some SockClosed,
        console := [StartFailed OSError, ServerStopped]\<rparr>, [], Returned)"
  by (simp add: start_def start_failed_def stop_def init_server_def)

text \<open>
  C2, amended. If binding the listening socket fails, \<^verbatim>\<open>start\<close> does not enter the accept
  loop and accepts no connection: it prints the failure, closes the socket, leaves
  \<^verbatim>\<open>running\<close> false and returns normally to its caller.
\<close>

theorem start_bind_failure_returns:
  "\<not> socket_raises env \<Longrightarrow> \<not> setsockopt_raises env \<Longrightarrow> bind_raises env \<Longrightarrow>
   start srv env =
     (srv\<lparr>server_socket := Some SockClosed, running := False,
          console := console srv @ [StartFailed OSError, ServerStopped]\<rparr>, [], Returned)"
  by (simp add: start_def start_failed_def stop_def Let_def)

theorem start_bind_failure_returns_witness:
  "bind_raises \<lparr>socket_raises = False, setsockopt_raises = False, bind_raises = True,
      listen_raises = False,
      accepts = [\<lparr>stop_before = False, stop_during = False, accept = Some 2\<rparr>,
                 \<lparr>stop_before = False, stop_during = False, accept = Some 3\<rparr>]\<rparr> \<and>
   fst (snd (start init_server
     \<lparr>socket_raises = False, setsockopt_raises = False, bind_raises = True,
      listen_raises = False,
      accepts = [\<lparr>stop_before = False, stop_during = False, accept = Some 2\<rparr>,
                 \<lparr>stop_before = False, stop_during = False, accept = Some 3\<rparr>]\<rparr>)) = [] \<and>
   snd (snd (start init_server
     \<lparr>socket_raises = False, setsockopt_raises = False, bind_raises = True,
      listen_raises = False,
      accepts = [\<lparr>stop_before = False, stop_during = False, accept = Some 2\<rparr>,
                 \<lparr>stop_before = False, stop_during = False, accept = Some 3\<rparr>]\<rparr>)) = Returned"
  using start_bind_failure_returns
    [of "\<lparr>socket_raises = False, setsockopt_raises = False, bind_raises = True,
      listen_raises = False,
      accepts = [\<lparr>stop_before = False, stop_during = False, accept = Some 2\<rparr>,
                 \<lparr>stop_before = False, stop_during = False, accept = Some 3\<rparr>]\<rparr>" init_server]
  by simp

section \<open>The client's ping\<close>




section \<open>Concurrent updates of the statistics\<close>

lemma thread_run_alone:
  "thread_run 9 (s, new_thread x) = (update_stats s x, done_thread s x)"
  by (simp add: eval_nat_numeral thread_step_def new_thread_def update_stats_def
      done_thread_def Let_def)

lemma sched_step_at:
  "sched_step (s, ds @ t # rest) (length ds) =
     (fst (thread_step s t), ds @ snd (thread_step s t) # rest)"
  by (simp add: sched_step_def split: prod.splits)

lemma run_replicate:
  "foldl sched_step (s, ds @ t # rest) (replicate n (length ds)) =
     (fst (thread_run n (s, t)), ds @ snd (thread_run n (s, t)) # rest)"
  by (induction n arbitrary: s t) (simp_all add: sched_step_at)

lemma run_one_after_another_from:
  "foldl sched_step (s, ds @ map new_thread L)
     (concat (map (replicate 9) [length ds..<length ds + length L]))
   = (foldl update_stats s L, ds @ done_threads s L)"
proof (induction L arbitrary: s ds)
  case Nil
  show ?case by simp
next
  case (Cons x xs)
  have split: "[length ds..<length ds + length (x # xs)]
      = length ds # [length (ds @ [done_thread s x])..<length (ds @ [done_thread s x]) + length xs]"
    by (subst upt_rec) simp
  have first: "foldl sched_step (s, ds @ new_thread x # map new_thread xs)
      (replicate 9 (length ds))
      = (update_stats s x, (ds @ [done_thread s x]) @ map new_thread xs)"
    by (simp add: run_replicate thread_run_alone)
  show ?case
    unfolding split
    using Cons.IH [of "update_stats s x" "ds @ [done_thread s x]"] first
    by simp
qed

lemma pc_done_threads: "map pc (done_threads s L) = replicate (length L) Finished"
  by (induction L arbitrary: s) (simp_all add: done_thread_def)

text \<open>
  C1, as stated, fails: there is no critical section. Two handler threads record the
  latencies 1 and 2; both read \<^verbatim>\<open>total_requests\<close> before either stores its increment, and
  when both calls have finished the count is 1 for two recorded samples. And a
  \<^verbatim>\<open>get_stats\<close> taken after the first thread has stored the count, before it has done
  anything else, reports one request with no sample and a total of 0.
\<close>

theorem interleaved_update_stats_loses_update:
  "map pc (snd (run_schedule [0, 1, 0, 1, 0, 0, 0, 0, 0, 0, 0, 1, 1, 1, 1, 1, 1, 1]
       (init_stats, [new_thread (Fin 1), new_thread (Fin 2)]))) = [Finished, Finished] \<and>
   total_requests (fst (run_schedule [0, 1, 0, 1, 0, 0, 0, 0, 0, 0, 0, 1, 1, 1, 1, 1, 1, 1]
       (init_stats, [new_thread (Fin 1), new_thread (Fin 2)]))) = 1 \<and>
   latencies (fst (run_schedule [0, 1, 0, 1, 0, 0, 0, 0, 0, 0, 0, 1, 1, 1, 1, 1, 1, 1]
       (init_stats, [new_thread (Fin 1), new_thread (Fin 2)]))) = [Fin 1, Fin 2] \<and>
   get_stats unused_library
       (fst (run_schedule [0, 0] (init_stats, [new_thread (Fin 1)]))) =
     Inr (with_derived
           \<lparr>total_requests = 1, total_latency = Fin 0, min_latency = PosInf,
            max_latency = Fin 0, latencies = []\<rparr> (Fin 0) (Fin 0) (Fin 0))"
  by (simp add: run_schedule_def sched_step_def thread_step_def new_thread_def
      init_stats_def get_stats_def fl_small)

text \<open>
  C1, amended. \<^verbatim>\<open>update_stats\<close> and \<^verbatim>\<open>get_stats\<close> run without any lock. When the
  \<^verbatim>\<open>update_stats\<close> calls for a latency sequence \<open>L\<close> do not overlap (each runs to its end
  before the next begins, as with a single handler thread), the dictionary afterwards is
  the one the calls produce in sequence: \<^verbatim>\<open>total_requests\<close> is \<open>len(L)\<close> and the recorded
  samples are \<open>L\<close>. Nothing of this is promised for calls that overlap.
\<close>

theorem update_stats_one_after_another:
  "fst (run_schedule (one_after_another (length L)) (init_stats, map new_thread L))
     = foldl update_stats init_stats L \<and>
   map pc (snd (run_schedule (one_after_another (length L)) (init_stats, map new_thread L)))
     = replicate (length L) Finished \<and>
   total_requests (fst (run_schedule (one_after_another (length L))
       (init_stats, map new_thread L))) = int (length L) \<and>
   latencies (fst (run_schedule (one_after_another (length L))
       (init_stats, map new_thread L))) = L"
proof -
  have run: "run_schedule (one_after_another (length L)) (init_stats, map new_thread L)
      = (foldl update_stats init_stats L, done_threads init_stats L)"
    using run_one_after_another_from [of init_stats "[]" L]
    by (simp add: run_schedule_def one_after_another_def)
  show ?thesis
    unfolding run
    by (simp add: pc_done_threads foldl_update_stats_count foldl_update_stats_latencies
        init_stats_def)
qed


end
